theory Spec2Isabelle
  imports Main
begin

section \<open>Values, failures and the transaction data of the client\<close>

text \<open>
  The client is JavaScript: every value it handles is dynamically typed. The values that
  flow through it (the public key, the account snapshot, the three lease arguments, the
  signed envelope, the submission result) are never inspected by the code, only handed on,
  so a small value universe is enough. Numbers are restricted to the integer-valued ones;
  the code performs no arithmetic.
\<close>

datatype jsval =
    JUndefined
  | JNull
  | JBool bool
  | JNum int
  | JStr string
  | JObj "(string \<times> jsval) list"

text \<open>
  A rejected promise or a thrown exception. \<open>TypeError s\<close> is the engine's own type
  error: \<open>s\<close> is the property whose read on \<open>undefined\<close> or \<open>null\<close> failed, or the class
  that was called as a plain function. \<open>Rejected v\<close> is whatever a collaborator (wallet
  extension, ledger endpoint, client library) throws or rejects with.
\<close>

datatype exn = TypeError string | Rejected jsval

text \<open>
  One contract invocation, the operation the code asks \<open>Contract.call\<close> for, kept as
  data: the contract address, the entry point and the argument array.
\<close>

datatype operation =
  InvokeContract (op_contract: string) (op_method: string) (op_args: "jsval list")

text \<open>
  The transaction builder of the client library, as the data it accumulates:
  \<open>new TransactionBuilder(account, {fee, networkPassphrase})\<close>, then \<open>addOperation\<close>,
  \<open>setTimeout\<close> and \<open>build\<close>.
\<close>

record transaction =
  source :: jsval
  fee :: string
  networkPassphrase :: string
  operations :: "operation list"
  timeout :: "nat option"

record builder_opts =
  opt_fee :: string
  opt_networkPassphrase :: string

definition TransactionBuilder :: "jsval \<Rightarrow> builder_opts \<Rightarrow> transaction" where
  "TransactionBuilder account opts =
     \<lparr>source = account, fee = opt_fee opts,
      networkPassphrase = opt_networkPassphrase opts, operations = [], timeout = None\<rparr>"

definition addOperation :: "operation \<Rightarrow> transaction \<Rightarrow> transaction" where
  "addOperation opn b = b\<lparr>operations := operations b @ [opn]\<rparr>"

definition setTimeout :: "nat \<Rightarrow> transaction \<Rightarrow> transaction" where
  "setTimeout n b = b\<lparr>timeout := Some n\<rparr>"

definition build :: "transaction \<Rightarrow> transaction" where
  "build b = b"

text \<open>The options object handed to the wallet's \<open>signTransaction\<close>: \<open>{network: ...}\<close>.\<close>

record sign_opts =
  network :: string

section \<open>Observable events and the collaborators\<close>

text \<open>
  Everything the client does to the outside is recorded as an event, in program order,
  together with the outcome the collaborator gave (\<open>Inl\<close> a rejection, \<open>Inr\<close> a
  value). \<open>Build\<close> marks the completion of the builder chain. \<open>SetTextContent i s v\<close> is the
  assignment of the template string with literal part \<open>s\<close> and interpolated value \<open>v\<close> to
  the \<open>textContent\<close> of element \<open>i\<close>.
\<close>

datatype event =
    Alert string
  | Enable "exn + jsval"
  | GetPublicKey "exn + jsval"
  | GetAccount jsval "exn + jsval"
  | Build transaction
  | SignTransaction string sign_opts "exn + jsval"
  | SubmitTransaction transaction "exn + jsval"
  | ConsoleLog "jsval list"
  | SetTextContent string string jsval

text \<open>
  The browser wallet extension, \<open>window.freighterApi\<close>. Each method answers from the
  history of events so far, so that an answer may change from one call to the next.
\<close>

record freighter_api =
  api_enable :: "event list \<Rightarrow> exn + jsval"
  api_getPublicKey :: "event list \<Rightarrow> exn + jsval"
  api_signTransaction :: "event list \<Rightarrow> string \<Rightarrow> sign_opts \<Rightarrow> exn + jsval"

text \<open>
  The world around the client: the wallet global (absent or present), the ledger-access
  endpoint reached through \<open>new Server(url)\<close>, the client library, and the document's
  element lookup. The library is not part of the repository, so what the code uses of it
  is a parameter: its serialiser and deserialiser, its constant \<open>Networks.TESTNET\<close>, and
  \<open>Contract_static_call\<close>, the static member \<open>call\<close> of its class \<open>Contract\<close> when the
  class has one. The class of the published \<open>soroban-client\<close> has none: there \<open>call\<close> is an
  instance method, \<open>new Contract(id).call(method, ...args)\<close>.
\<close>

record world =
  freighterApi :: "freighter_api option"
  server_getAccount :: "string \<Rightarrow> event list \<Rightarrow> jsval \<Rightarrow> exn + jsval"
  server_submitTransaction :: "string \<Rightarrow> event list \<Rightarrow> transaction \<Rightarrow> exn + jsval"
  toXDR :: "transaction \<Rightarrow> string"
  fromXDR :: "jsval \<Rightarrow> string \<Rightarrow> exn + transaction"
  Networks_TESTNET :: string
  Contract_static_call :: "(string \<Rightarrow> string \<Rightarrow> jsval list \<Rightarrow> exn + operation) option"
  getElementById :: "string \<Rightarrow> bool"

text \<open>
  The expression \<open>Contract.call(contractId, method, args)\<close> of the source. A class is a
  function object, so without a static member \<open>call\<close> the name resolves to
  \<open>Function.prototype.call\<close>: the class constructor is then called as a plain function,
  with \<open>contractId\<close> as \<open>this\<close>, and a class constructor called without \<open>new\<close> throws a
  type error.
\<close>

definition Contract_call :: "world \<Rightarrow> string \<Rightarrow> string \<Rightarrow> jsval list \<Rightarrow> exn + operation" where
  "Contract_call w cid method args =
     (case Contract_static_call w of
        None \<Rightarrow> Inl (TypeError ''Contract'')
      | Some f \<Rightarrow> f cid method args)"

section \<open>The wallet bridge\<close>

text \<open>
  An \<open>async\<close> function is modelled by its settled promise and the events of the call:
  given the world and the history \<open>h\<close> of events before the call, it returns the outcome
  and the list of events the call itself produced.
\<close>

definition connectWallet :: "world \<Rightarrow> event list \<Rightarrow> (exn + jsval) \<times> event list" where
  "connectWallet w h =
     (case freighterApi w of
        None \<Rightarrow> (Inr JUndefined, [Alert ''Freighter wallet not found!''])
      | Some api \<Rightarrow> (let r = api_enable api h in (r, [Enable r])))"

definition getPublicKey :: "world \<Rightarrow> event list \<Rightarrow> (exn + jsval) \<times> event list" where
  "getPublicKey w h =
     (case freighterApi w of
        None \<Rightarrow> (Inl (TypeError ''getPublicKey''), [])
      | Some api \<Rightarrow> (let r = api_getPublicKey api h in (r, [GetPublicKey r])))"

section \<open>The lease transaction submitter\<close>

definition server :: string where
  "server = ''https://horizon-testnet.stellar.org''"

definition contractId :: string where
  "contractId = ''CCDP5IJT5AZGLCRNBKYXNQ24E6XQYOWAGB2JQR52OQXE7IIP2HM6PIIV''"

text \<open>
  In the builder chain of \<open>createLease\<close> the argument of \<open>addOperation\<close>, the expression
  \<open>Contract.call(...)\<close>, is evaluated after \<open>new TransactionBuilder(...)\<close> and before
  \<open>addOperation\<close>, \<open>setTimeout\<close> and \<open>build\<close> run: when it throws, the call rejects there,
  after the account fetch, and nothing is built.
\<close>

definition createLease ::
  "world \<Rightarrow> jsval \<Rightarrow> jsval \<Rightarrow> jsval \<Rightarrow> event list \<Rightarrow> (exn + jsval) \<times> event list" where
  "createLease w assetId duration price h =
     (case freighterApi w of
        None \<Rightarrow> (Inl (TypeError ''getPublicKey''), [])
      | Some api \<Rightarrow>
          (let r1 = api_getPublicKey api h;
               e1 = [GetPublicKey r1]
           in case r1 of
                Inl x \<Rightarrow> (Inl x, e1)
              | Inr pubKey \<Rightarrow>
                  (let r2 = server_getAccount w server (h @ e1) pubKey;
                       e2 = e1 @ [GetAccount pubKey r2]
                   in case r2 of
                        Inl x \<Rightarrow> (Inl x, e2)
                      | Inr account \<Rightarrow>
                          (case Contract_call w contractId ''create_lease''
                                  [assetId, duration, price] of
                             Inl x \<Rightarrow> (Inl x, e2)
                           | Inr opn \<Rightarrow>
                          (let tx = build (setTimeout 30
                                      (addOperation opn
                                         (TransactionBuilder account
                                            \<lparr>opt_fee = ''100'',
                                             opt_networkPassphrase = Networks_TESTNET w\<rparr>)));
                               e3 = e2 @ [Build tx];
                               sopts = \<lparr>network = ''TESTNET''\<rparr>;
                               r4 = api_signTransaction api (h @ e3) (toXDR w tx) sopts;
                               e4 = e3 @ [SignTransaction (toXDR w tx) sopts r4]
                           in case r4 of
                                Inl x \<Rightarrow> (Inl x, e4)
                              | Inr signedTx \<Rightarrow>
                                  (case fromXDR w signedTx (Networks_TESTNET w) of
                                     Inl x \<Rightarrow> (Inl x, e4)
                                   | Inr stx \<Rightarrow>
                                       (let r5 = server_submitTransaction w server (h @ e4) stx;
                                            e5 = e4 @ [SubmitTransaction stx r5]
                                        in case r5 of
                                             Inl x \<Rightarrow> (Inl x, e5)
                                           | Inr txResult \<Rightarrow>
                                               (Inr JUndefined,
                                                e5 @ [ConsoleLog
                                                        [JStr ''Lease created!'', txResult]]))))))))"

section \<open>The click handler of the connect button\<close>

definition connect_wallet_click :: "world \<Rightarrow> event list \<Rightarrow> (exn + jsval) \<times> event list" where
  "connect_wallet_click w h =
     (case connectWallet w h of
        (Inl x, e1) \<Rightarrow> (Inl x, e1)
      | (Inr _, e1) \<Rightarrow>
          (case getPublicKey w (h @ e1) of
             (Inl x, e2) \<Rightarrow> (Inl x, e1 @ e2)
           | (Inr pubKey, e2) \<Rightarrow>
               (if getElementById w ''wallet-address''
                then (Inr JUndefined,
                      e1 @ e2 @ [SetTextContent ''wallet-address'' ''Connected: '' pubKey])
                else (Inl (TypeError ''textContent''), e1 @ e2))))"

section \<open>Reading a call's events\<close>

fun account_fetches :: "event list \<Rightarrow> jsval list" where
  "account_fetches [] = []"
| "account_fetches (GetAccount k r # es) = k # account_fetches es"
| "account_fetches (e # es) = account_fetches es"

fun built_txs :: "event list \<Rightarrow> transaction list" where
  "built_txs [] = []"
| "built_txs (Build tx # es) = tx # built_txs es"
| "built_txs (e # es) = built_txs es"

fun sign_requests :: "event list \<Rightarrow> string list" where
  "sign_requests [] = []"
| "sign_requests (SignTransaction x opts r # es) = x # sign_requests es"
| "sign_requests (e # es) = sign_requests es"

fun submitted_txs :: "event list \<Rightarrow> transaction list" where
  "submitted_txs [] = []"
| "submitted_txs (SubmitTransaction tx r # es) = tx # submitted_txs es"
| "submitted_txs (e # es) = submitted_txs es"

fun enable_calls :: "event list \<Rightarrow> nat" where
  "enable_calls [] = 0"
| "enable_calls (Enable r # es) = Suc (enable_calls es)"
| "enable_calls (e # es) = enable_calls es"

fun alerts :: "event list \<Rightarrow> string list" where
  "alerts [] = []"
| "alerts (Alert s # es) = s # alerts es"
| "alerts (e # es) = alerts es"

fun is_feedback :: "event \<Rightarrow> bool" where
  "is_feedback (Alert s) = True"
| "is_feedback (ConsoleLog vs) = True"
| "is_feedback (SetTextContent i s v) = True"
| "is_feedback e = False"

section \<open>Sample worlds\<close>

text \<open>
  A wallet that grants access, reports one fixed key and signs by prefixing the envelope;
  a wallet whose user declines every signature request; an endpoint whose account snapshot
  carries a sequence number that grows with the history; a codec that writes the fee and
  reads back one fixed transaction. The library of \<open>sample_world\<close> offers the static
  \<open>Contract.call\<close> the code asks for, so that the steps after it can be exercised;
  \<open>soroban_client w\<close> is the world \<open>w\<close> with the library as published, whose class
  \<open>Contract\<close> has no static \<open>call\<close>.
\<close>

definition sample_key :: jsval where
  "sample_key = JStr ''GDEMO''"

definition granting_wallet :: freighter_api where
  "granting_wallet =
     \<lparr>api_enable = (\<lambda>h. Inr (JBool True)),
      api_getPublicKey = (\<lambda>h. Inr sample_key),
      api_signTransaction = (\<lambda>h x opts. Inr (JStr (''signed:'' @ x)))\<rparr>"

definition declining_wallet :: freighter_api where
  "declining_wallet =
     \<lparr>api_enable = (\<lambda>h. Inr (JBool True)),
      api_getPublicKey = (\<lambda>h. Inr sample_key),
      api_signTransaction = (\<lambda>h x opts. Inl (Rejected (JStr ''User declined access'')))\<rparr>"

definition sample_account :: "event list \<Rightarrow> jsval" where
  "sample_account h = JObj [(''sequence'', JNum (int (length h)))]"

definition sample_tx :: transaction where
  "sample_tx =
     \<lparr>source = sample_account [GetPublicKey (Inr sample_key)], fee = ''100'',
      networkPassphrase = ''Test SDF Network ; September 2015'',
      operations = [InvokeContract contractId ''create_lease''
                      [JStr ''asset-42'', JNum 30, JNum 100]],
      timeout = Some 30\<rparr>"

definition sample_world :: "freighter_api option \<Rightarrow> world" where
  "sample_world api =
     \<lparr>freighterApi = api,
      server_getAccount = (\<lambda>url h k. Inr (sample_account h)),
      server_submitTransaction = (\<lambda>url h tx. Inr (JObj [(''successful'', JBool True)])),
      toXDR = (\<lambda>tx. ''AAAA'' @ fee tx),
      fromXDR = (\<lambda>v p. if v = JStr ''signed:AAAA100'' then Inr sample_tx
                         else Inl (Rejected (JStr ''bad envelope''))),
      Networks_TESTNET = ''Test SDF Network ; September 2015'',
      Contract_static_call = Some (\<lambda>cid method args. Inr (InvokeContract cid method args)),
      getElementById = (\<lambda>i. i = ''wallet-address'')\<rparr>"

definition soroban_client :: "world \<Rightarrow> world" where
  "soroban_client w = w\<lparr>Contract_static_call := None\<rparr>"

text \<open>The same world with an endpoint that is down, and with one that refuses submissions.\<close>

definition offline_world :: world where
  "offline_world =
     (sample_world (Some granting_wallet))
       \<lparr>server_getAccount := (\<lambda>url h k. Inl (Rejected (JStr ''Network Error'')))\<rparr>"

definition refusing_world :: world where
  "refusing_world =
     (sample_world (Some granting_wallet))
       \<lparr>server_submitTransaction := (\<lambda>url h tx. Inl (Rejected (JStr ''tx_bad_seq'')))\<rparr>"

section \<open>Unfolding the builder chain and the sample worlds\<close>

lemmas cl_defs = createLease_def Let_def build_def setTimeout_def addOperation_def
  Contract_call_def TransactionBuilder_def

lemmas sample_defs = sample_world_def granting_wallet_def declining_wallet_def sample_tx_def
  sample_account_def sample_key_def offline_world_def refusing_world_def soroban_client_def

section \<open>The wallet bridge and the connect button without a wallet\<close>

text \<open>
  C2. When \<open>window.freighterApi\<close> is absent, \<open>connectWallet()\<close> does not reject: it resolves
  to \<open>undefined\<close>, its only effect is one alert (unavailability is reported exactly once),
  and the extension's \<open>enable()\<close> is never invoked.
\<close>

theorem connectWallet_absent:
  assumes "freighterApi w = None"
  shows "fst (connectWallet w h) = Inr JUndefined
       \<and> snd (connectWallet w h) = [Alert ''Freighter wallet not found!'']
       \<and> length (alerts (snd (connectWallet w h))) = 1
       \<and> enable_calls (snd (connectWallet w h)) = 0"
  using assms by (simp add: connectWallet_def)

theorem connectWallet_absent_witness:
  "freighterApi (sample_world None) = None
   \<and> connectWallet (sample_world None) [] =
       (Inr JUndefined, [Alert ''Freighter wallet not found!''])"
  using connectWallet_absent [of "sample_world None" "[]"]
  by (simp add: sample_world_def prod_eq_iff)

text \<open>
  C10. The bridge's \<open>getPublicKey()\<close> has no availability check: when
  \<open>window.freighterApi\<close> is absent the property access fails, so the call rejects with the
  engine's type error; it returns no value and reports nothing (no alert, no event at all).
\<close>

theorem getPublicKey_absent:
  assumes "freighterApi w = None"
  shows "getPublicKey w h = (Inl (TypeError ''getPublicKey''), [])"
  using assms by (simp add: getPublicKey_def)

theorem getPublicKey_absent_witness:
  "freighterApi (sample_world None) = None
   \<and> fst (getPublicKey (sample_world None) []) = Inl (TypeError ''getPublicKey'')
   \<and> alerts (snd (getPublicKey (sample_world None) [])) = []"
  using getPublicKey_absent [of "sample_world None" "[]"]
  by (simp add: sample_world_def)

text \<open>
  C3. With the wallet absent, \<open>connectWallet()\<close> resolves after its alert, but the click
  handler of the connect button does not stop there: it ignores the result and calls the
  bridge's \<open>getPublicKey()\<close>, which reads \<open>window.freighterApi.getPublicKey\<close> on the absent
  global. The key is requested, the request throws, and the handler's promise rejects with
  that type error, uncaught; the address is never shown.
\<close>

theorem connect_click_absent_rejects:
  "connectWallet (sample_world None) [] =
     (Inr JUndefined, [Alert ''Freighter wallet not found!''])
 \<and> getPublicKey (sample_world None) [Alert ''Freighter wallet not found!''] =
     (Inl (TypeError ''getPublicKey''), [])
 \<and> connect_wallet_click (sample_world None) [] =
     (Inl (TypeError ''getPublicKey''), [Alert ''Freighter wallet not found!''])"
  by (simp add: connect_wallet_click_def connectWallet_def getPublicKey_def sample_world_def)

section \<open>The lease transaction submitter: fetch and failures\<close>

text \<open>
  C6. Whatever the history \<open>h\<close> before the call (earlier calls of \<open>createLease\<close> and
  their snapshots included), a call that obtains the public key makes exactly one account
  fetch, for that key and right after retrieving it; and the source account of the
  transaction a call builds is the endpoint's answer to that fetch of this very call: the
  call begins with key retrieval, then the fetch, then the build. The witness runs two
  calls in a row against an endpoint whose sequence number moves; the second transaction
  carries the second snapshot.
\<close>

theorem createLease_fresh_snapshot:
  "(freighterApi w = Some api \<and> api_getPublicKey api h = Inr pubKey \<longrightarrow>
      account_fetches (snd (createLease w assetId duration price h)) = [pubKey]
    \<and> take 2 (snd (createLease w assetId duration price h)) =
        [GetPublicKey (Inr pubKey),
         GetAccount pubKey
           (server_getAccount w server (h @ [GetPublicKey (Inr pubKey)]) pubKey)])
 \<and> (Build tx \<in> set (snd (createLease w assetId duration price h)) \<longrightarrow>
      (\<exists>api' pubKey'.
           freighterApi w = Some api'
         \<and> api_getPublicKey api' h = Inr pubKey'
         \<and> server_getAccount w server (h @ [GetPublicKey (Inr pubKey')]) pubKey'
             = Inr (source tx)
         \<and> take 3 (snd (createLease w assetId duration price h)) =
             [GetPublicKey (Inr pubKey'), GetAccount pubKey' (Inr (source tx)), Build tx]
         \<and> account_fetches (snd (createLease w assetId duration price h)) = [pubKey']
         \<and> built_txs (snd (createLease w assetId duration price h)) = [tx]))"
  by (auto simp: cl_defs split: option.splits sum.splits)

theorem createLease_fresh_snapshot_witness:
  "freighterApi (sample_world (Some granting_wallet)) = Some granting_wallet
 \<and> api_getPublicKey granting_wallet
      (snd (createLease (sample_world (Some granting_wallet))
         (JStr ''asset-42'') (JNum 30) (JNum 100) [])) = Inr sample_key
 \<and> Build (sample_tx\<lparr>source := JObj [(''sequence'', JNum 7)]\<rparr>)
     \<in> set (snd (createLease (sample_world (Some granting_wallet))
          (JStr ''asset-42'') (JNum 30) (JNum 100)
          (snd (createLease (sample_world (Some granting_wallet))
             (JStr ''asset-42'') (JNum 30) (JNum 100) []))))
 \<and> account_fetches (snd (createLease (sample_world (Some granting_wallet))
      (JStr ''asset-42'') (JNum 30) (JNum 100) [])) = [sample_key]
 \<and> built_txs (snd (createLease (sample_world (Some granting_wallet))
      (JStr ''asset-42'') (JNum 30) (JNum 100) [])) = [sample_tx]
 \<and> source sample_tx = JObj [(''sequence'', JNum 1)]
 \<and> account_fetches (snd (createLease (sample_world (Some granting_wallet))
      (JStr ''asset-42'') (JNum 30) (JNum 100)
      (snd (createLease (sample_world (Some granting_wallet))
         (JStr ''asset-42'') (JNum 30) (JNum 100) [])))) = [sample_key]"
  using createLease_fresh_snapshot [of "sample_world (Some granting_wallet)" granting_wallet
      "snd (createLease (sample_world (Some granting_wallet))
             (JStr ''asset-42'') (JNum 30) (JNum 100) [])"
      sample_key "JStr ''asset-42''" "JNum 30" "JNum 100"
      "sample_tx\<lparr>source := JObj [(''sequence'', JNum 7)]\<rparr>"]
  by (simp add: cl_defs sample_defs)

text \<open>
  C8. When the wallet's \<open>signTransaction\<close> fails, \<open>createLease\<close> makes no call to
  \<open>submitTransaction\<close>: the rejection ends the call, which rejects with the same error.
\<close>

theorem createLease_declined_signature:
  assumes "SignTransaction x opts (Inl e) \<in> set (snd (createLease w assetId duration price h))"
  shows "submitted_txs (snd (createLease w assetId duration price h)) = []
       \<and> fst (createLease w assetId duration price h) = Inl e"
  using assms by (auto simp: cl_defs split: option.splits sum.splits)

theorem createLease_declined_signature_witness:
  "SignTransaction ''AAAA100'' \<lparr>network = ''TESTNET''\<rparr>
      (Inl (Rejected (JStr ''User declined access'')))
      \<in> set (snd (createLease (sample_world (Some declining_wallet))
        (JStr ''asset-42'') (JNum 30) (JNum 100) []))
 \<and> submitted_txs (snd (createLease (sample_world (Some declining_wallet))
        (JStr ''asset-42'') (JNum 30) (JNum 100) [])) = []
 \<and> fst (createLease (sample_world (Some declining_wallet))
        (JStr ''asset-42'') (JNum 30) (JNum 100) [])
      = Inl (Rejected (JStr ''User declined access''))"
  using createLease_declined_signature [of "''AAAA100''" "\<lparr>network = ''TESTNET''\<rparr>"
      "Rejected (JStr ''User declined access'')" "sample_world (Some declining_wallet)"
      "JStr ''asset-42''" "JNum 30" "JNum 100" "[]"]
  by (simp add: cl_defs sample_defs)

text \<open>
  C9. A failure of the account fetch, of the signing request or of the submission is caught
  nowhere in \<open>createLease\<close>: the call rejects with that very error, the failing call is
  the last thing it did, and no alert, log line or page update was produced.
\<close>

theorem createLease_failures_propagate:
  assumes "GetAccount k (Inl e) \<in> set (snd (createLease w assetId duration price h))
         \<or> SignTransaction x opts (Inl e) \<in> set (snd (createLease w assetId duration price h))
         \<or> SubmitTransaction stx (Inl e) \<in> set (snd (createLease w assetId duration price h))"
  shows "fst (createLease w assetId duration price h) = Inl e
       \<and> filter is_feedback (snd (createLease w assetId duration price h)) = []
       \<and> last (snd (createLease w assetId duration price h))
           \<in> {GetAccount k (Inl e), SignTransaction x opts (Inl e), SubmitTransaction stx (Inl e)}"
  using assms by (auto simp: cl_defs split: option.splits sum.splits)

theorem createLease_failures_propagate_witness:
  "GetAccount sample_key (Inl (Rejected (JStr ''Network Error'')))
      \<in> set (snd (createLease offline_world (JStr ''asset-42'') (JNum 30) (JNum 100) []))
 \<and> fst (createLease offline_world (JStr ''asset-42'') (JNum 30) (JNum 100) [])
      = Inl (Rejected (JStr ''Network Error''))
 \<and> SignTransaction ''AAAA100'' \<lparr>network = ''TESTNET''\<rparr>
      (Inl (Rejected (JStr ''User declined access'')))
      \<in> set (snd (createLease (sample_world (Some declining_wallet))
        (JStr ''asset-42'') (JNum 30) (JNum 100) []))
 \<and> fst (createLease (sample_world (Some declining_wallet))
        (JStr ''asset-42'') (JNum 30) (JNum 100) [])
      = Inl (Rejected (JStr ''User declined access''))
 \<and> SubmitTransaction sample_tx (Inl (Rejected (JStr ''tx_bad_seq'')))
      \<in> set (snd (createLease refusing_world (JStr ''asset-42'') (JNum 30) (JNum 100) []))
 \<and> fst (createLease refusing_world (JStr ''asset-42'') (JNum 30) (JNum 100) [])
      = Inl (Rejected (JStr ''tx_bad_seq''))"
  using
    createLease_failures_propagate [of sample_key "Rejected (JStr ''Network Error'')"
      offline_world "JStr ''asset-42''" "JNum 30" "JNum 100" "[]"]
    createLease_failures_propagate [of sample_key "Rejected (JStr ''User declined access'')"
      "sample_world (Some declining_wallet)" "JStr ''asset-42''" "JNum 30" "JNum 100" "[]"
      "''AAAA100''" "\<lparr>network = ''TESTNET''\<rparr>" sample_tx]
    createLease_failures_propagate [of sample_key "Rejected (JStr ''tx_bad_seq'')"
      refusing_world "JStr ''asset-42''" "JNum 30" "JNum 100" "[]"
      "''AAAA100''" "\<lparr>network = ''TESTNET''\<rparr>" sample_tx]
  by (simp add: cl_defs sample_defs)

section \<open>The lease transaction submitter against the published library\<close>

text \<open>
  With a library whose class \<open>Contract\<close> has no static \<open>call\<close>, no call of
  \<open>createLease\<close> resolves, whatever the wallet, the endpoint, the history and the three
  arguments are: nothing is built, nothing is handed to the wallet, nothing is submitted,
  nothing is logged.
\<close>

lemma createLease_without_static_call:
  assumes "Contract_static_call w = None"
  shows "fst (createLease w assetId duration price h) \<noteq> Inr v
       \<and> built_txs (snd (createLease w assetId duration price h)) = []
       \<and> sign_requests (snd (createLease w assetId duration price h)) = []
       \<and> submitted_txs (snd (createLease w assetId duration price h)) = []
       \<and> filter is_feedback (snd (createLease w assetId duration price h)) = []"
  using assms by (auto simp: cl_defs split: option.splits sum.splits)

text \<open>
  C1. The code asks for one operation, \<open>create_lease\<close> on the leasing contract with the
  caller's three arguments in order, and with a library that had the static
  \<open>Contract.call\<close> this is the one operation of the one transaction built. With the library
  as published the expression \<open>Contract.call(contractId, 'create_lease', [...])\<close> throws:
  \<open>createLease('asset-42', 30, 100)\<close> rejects with the type error and no transaction is
  submitted at all.
\<close>

theorem createLease_submits_nothing:
  "Contract_call (soroban_client (sample_world (Some granting_wallet)))
     contractId ''create_lease'' [JStr ''asset-42'', JNum 30, JNum 100]
     = Inl (TypeError ''Contract'')
 \<and> fst (createLease (soroban_client (sample_world (Some granting_wallet)))
      (JStr ''asset-42'') (JNum 30) (JNum 100) []) = Inl (TypeError ''Contract'')
 \<and> submitted_txs (snd (createLease (soroban_client (sample_world (Some granting_wallet)))
      (JStr ''asset-42'') (JNum 30) (JNum 100) [])) = []
 \<and> map operations (built_txs (snd (createLease (sample_world (Some granting_wallet))
      (JStr ''asset-42'') (JNum 30) (JNum 100) []))) =
      [[InvokeContract contractId ''create_lease'' [JStr ''asset-42'', JNum 30, JNum 100]]]"
  by (simp add: cl_defs sample_defs)

text \<open>
  C4. The code asks for fee \<open>'100'\<close>, timeout 30 and the passphrase \<open>Networks.TESTNET\<close>, and
  with a library that had the static \<open>Contract.call\<close> the one transaction built carries
  them. With the library as published \<open>createLease('asset-42', 30, 100)\<close> throws before
  \<open>addOperation\<close>, \<open>setTimeout\<close> and \<open>build\<close> run: no transaction is built, so none has
  this fee, timeout and passphrase, and no signed envelope is decoded.
\<close>

theorem createLease_builds_nothing:
  "built_txs (snd (createLease (soroban_client (sample_world (Some granting_wallet)))
      (JStr ''asset-42'') (JNum 30) (JNum 100) [])) = []
 \<and> last (snd (createLease (soroban_client (sample_world (Some granting_wallet)))
      (JStr ''asset-42'') (JNum 30) (JNum 100) []))
      = GetAccount sample_key (Inr (JObj [(''sequence'', JNum 1)]))
 \<and> map fee (built_txs (snd (createLease (sample_world (Some granting_wallet))
      (JStr ''asset-42'') (JNum 30) (JNum 100) []))) = [''100'']
 \<and> map timeout (built_txs (snd (createLease (sample_world (Some granting_wallet))
      (JStr ''asset-42'') (JNum 30) (JNum 100) []))) = [Some 30]
 \<and> map networkPassphrase (built_txs (snd (createLease (sample_world (Some granting_wallet))
      (JStr ''asset-42'') (JNum 30) (JNum 100) [])))
      = [Networks_TESTNET (sample_world (Some granting_wallet))]"
  by (simp add: cl_defs sample_defs)

text \<open>
  C5. The scenario of the specification: wallet present, key and account available,
  \<open>createLease('asset-42', 30, 100)\<close>, with the library as published. The call makes its one
  account fetch and then rejects with the type error of \<open>Contract.call\<close>: these two events
  are all it does. No transaction is built, no signature is requested, nothing is
  submitted, and the call does not complete.
\<close>

theorem createLease_scenario_run:
  "createLease (soroban_client (sample_world (Some granting_wallet)))
      (JStr ''asset-42'') (JNum 30) (JNum 100) [] =
     (Inl (TypeError ''Contract''),
      [GetPublicKey (Inr sample_key),
       GetAccount sample_key (Inr (JObj [(''sequence'', JNum 1)]))])
 \<and> length (account_fetches (snd (createLease (soroban_client (sample_world (Some granting_wallet)))
      (JStr ''asset-42'') (JNum 30) (JNum 100) []))) = 1
 \<and> length (built_txs (snd (createLease (soroban_client (sample_world (Some granting_wallet)))
      (JStr ''asset-42'') (JNum 30) (JNum 100) []))) = 0
 \<and> length (sign_requests (snd (createLease (soroban_client (sample_world (Some granting_wallet)))
      (JStr ''asset-42'') (JNum 30) (JNum 100) []))) = 0
 \<and> length (submitted_txs (snd (createLease (soroban_client (sample_world (Some granting_wallet)))
      (JStr ''asset-42'') (JNum 30) (JNum 100) []))) = 0"
  by (simp add: cl_defs sample_defs)

text \<open>
  C7. The code hands the wallet \<open>tx.toXDR()\<close> of the transaction it has just built, and
  with a library that had the static \<open>Contract.call\<close> that is the one envelope of the one
  signing request. With the library as published \<open>createLease('asset-42', 30, 100)\<close> never
  gets there: no envelope is passed to \<open>signTransaction\<close> and none is submitted.
\<close>

theorem createLease_signs_nothing:
  "sign_requests (snd (createLease (soroban_client (sample_world (Some granting_wallet)))
      (JStr ''asset-42'') (JNum 30) (JNum 100) [])) = []
 \<and> submitted_txs (snd (createLease (soroban_client (sample_world (Some granting_wallet)))
      (JStr ''asset-42'') (JNum 30) (JNum 100) [])) = []
 \<and> sign_requests (snd (createLease (sample_world (Some granting_wallet))
      (JStr ''asset-42'') (JNum 30) (JNum 100) [])) =
      map (toXDR (sample_world (Some granting_wallet)))
        (built_txs (snd (createLease (sample_world (Some granting_wallet))
           (JStr ''asset-42'') (JNum 30) (JNum 100) [])))
 \<and> length (sign_requests (snd (createLease (sample_world (Some granting_wallet))
      (JStr ''asset-42'') (JNum 30) (JNum 100) []))) = 1"
  by (simp add: cl_defs sample_defs)

end
